theory Spec2Isabelle
  imports Complex_Main "HOL-Library.Word" "HOL-Library.Log_Nat"
begin

section \<open>The StatefulSet metric families of kube-state-metrics\<close>

text \<open>
  A shallow embedding of \<^verbatim>\<open>internal/store/statefulset.go\<close>: the catalog of metric
  families built by \<^verbatim>\<open>statefulSetMetricFamilies\<close> and the wrapper
  \<^verbatim>\<open>wrapStatefulSetFunc\<close> that puts the namespace and the name of the object in front
  of the labels of every metric. The list/watch factory of the same file only forwards to
  the Kubernetes client and is not part of the embedding.
\<close>

subsection \<open>Numbers\<close>

type_synonym int32 = "32 word"
type_synonym int64 = "64 word"

text \<open>
  A finite \<^verbatim>\<open>float64\<close> is represented by the real number it denotes. The conversion
  \<^verbatim>\<open>float64(x)\<close> of an integer rounds to a significand of 53 bits, to the nearest
  value and to the even one on a tie. No 64-bit integer is large enough to overflow.
\<close>

type_synonym float64 = real

definition float64_of :: "int \<Rightarrow> float64" where
  "float64_of i =
     (let a = \<bar>i\<bar>;
          e = nat (bitlen a - 53);
          q = a div 2 ^ e;
          r = a mod 2 ^ e;
          q' = (if 2 ^ e < 2 * r \<or> (2 * r = 2 ^ e \<and> odd q) then q + 1 else q)
      in of_int (sgn i * (q' * 2 ^ e)))"

subsection \<open>The Kubernetes object\<close>

text \<open>
  Go's \<^verbatim>\<open>time.Time\<close>, behind \<^verbatim>\<open>metav1.Time\<close>, reduced to what the methods
  \<^verbatim>\<open>IsZero\<close> and \<^verbatim>\<open>Unix\<close> read: the seconds since January 1 of year 1, 00:00:00
  UTC, and the nanoseconds within the second. The zero value of the type is that instant,
  and the Unix epoch lies 62135596800 seconds after it.
\<close>

record Time =
  sec :: int64
  nsec :: int32

definition IsZero :: "Time \<Rightarrow> bool" where
  "IsZero t \<longleftrightarrow> sec t = 0 \<and> nsec t = 0"

definition Unix :: "Time \<Rightarrow> int64" where
  "Unix t = sec t - 62135596800"

text \<open>
  The fields of \<^verbatim>\<open>v1.StatefulSet\<close> that the file reads. The Go struct embeds
  \<^verbatim>\<open>ObjectMeta\<close>, so that \<^verbatim>\<open>s.Namespace\<close> and \<^verbatim>\<open>s.ObjectMeta.Generation\<close>
  are fields of the object itself: the record extends \<open>ObjectMeta\<close>. A \<^verbatim>\<open>*int32\<close> is
  an option, \<open>None\<close> for \<^verbatim>\<open>nil\<close>; a \<^verbatim>\<open>map[string]string\<close> is a partial function.
  The desired and the observed replica counts are both called \<^verbatim>\<open>Replicas\<close> in Go and
  are told apart here by the record they belong to.
\<close>

record ObjectMeta =
  Name :: string
  Namespace :: string
  Generation :: int64
  CreationTimestamp :: Time
  Labels :: "string \<rightharpoonup> string"
  Annotations :: "string \<rightharpoonup> string"

record StatefulSetSpec =
  Replicas :: "int32 option"

record StatefulSetStatus =
  ObservedGeneration :: int64
  Replicas :: int32
  ReadyReplicas :: int32
  CurrentReplicas :: int32
  UpdatedReplicas :: int32
  CurrentRevision :: string
  UpdateRevision :: string

record StatefulSet = ObjectMeta +
  Spec :: StatefulSetSpec
  Status :: StatefulSetStatus

text \<open>
  The argument of a generate function has the type \<^verbatim>\<open>interface{}\<close>: it is a pointer to
  a StatefulSet or a value of some other dynamic type, given here by the name of that type.
  The store hands the function pointers to objects, never a nil pointer, and the embedding
  has no value for one.
\<close>

datatype interface = StatefulSetPtr StatefulSet | OtherValue string

text \<open>The failed type assertion, with the dynamic type that was found.\<close>

datatype panic = InterfaceConversion string

subsection \<open>The package variables\<close>

text \<open>
  A Go slice of strings is a window on a backing array: \<open>backing\<close> is the array from the
  first element of the slice to the end of its capacity, \<open>count\<close> the length of the slice.
\<close>

record slice =
  backing :: "string list"
  count :: nat

definition elems :: "slice \<Rightarrow> string list" where
  "elems d = take (count d) (backing d)"

text \<open>
  The slice \<^verbatim>\<open>descStatefulSetLabelsDefaultLabels\<close> is a package variable that every
  call of every wrapped extractor passes to \<^verbatim>\<open>append\<close> as first argument, so it is
  state shared by all calls. (The other two variables of the block are strings, which are
  immutable, and nothing in the file assigns to any of the three.)
\<close>

record globals =
  descStatefulSetLabelsDefaultLabels :: slice

text \<open>A slice literal has a capacity equal to its length.\<close>

definition init_globals :: globals where
  "init_globals =
     \<lparr>descStatefulSetLabelsDefaultLabels =
        \<lparr>backing = [''namespace'', ''statefulset''], count = 2\<rparr>\<rparr>"

definition descStatefulSetLabelsName :: string where
  "descStatefulSetLabelsName = ''kube_statefulset_labels''"

definition descStatefulSetLabelsHelp :: string where
  "descStatefulSetLabelsHelp = ''Kubernetes labels converted to Prometheus labels.''"

text \<open>
  \<^verbatim>\<open>append(d, xs...)\<close> for the package variable \<open>d\<close>. When the capacity of \<open>d\<close>
  suffices, Go writes \<open>xs\<close> into the backing array behind the elements of \<open>d\<close> and
  returns a longer window on the same array: \<open>Alias n\<close> is the window of length \<open>n\<close>.
  Otherwise it copies the elements of \<open>d\<close> and \<open>xs\<close> into a new array: \<open>Own\<close>. The
  second component of the result is the package variable after the call.
\<close>

datatype strings = Alias nat | Own "string list"

definition append_desc :: "slice \<Rightarrow> string list \<Rightarrow> strings \<times> slice" where
  "append_desc d xs =
     (if count d + length xs \<le> length (backing d)
      then (Alias (count d + length xs),
            d\<lparr>backing := take (count d) (backing d) @ xs
                          @ drop (count d + length xs) (backing d)\<rparr>)
      else (Own (elems d @ xs), d))"

text \<open>What a reader of the slice finds, given the package variable at the time of reading.\<close>

fun contents :: "slice \<Rightarrow> strings \<Rightarrow> string list" where
  "contents d (Alias n) = take n (backing d)"
| "contents d (Own xs) = xs"

subsection \<open>Metrics and family generators\<close>

text \<open>
  Modelled from the spec: the packages \<^verbatim>\<open>pkg/metric\<close> and \<^verbatim>\<open>pkg/metric_generator\<close>
  are outside the source file. A metric record is two parallel sequences of label keys and
  label values and a float64 value; a family holds the sequence of its records (the one
  field the file sets); a family descriptor is a name, a help text, a kind, a deprecated
  version and the extractor, and \<^verbatim>\<open>NewFamilyGenerator\<close> builds one from its five
  arguments.
\<close>

record Metric =
  LabelKeys :: "string list"
  LabelValues :: "string list"
  Value :: float64

record Family =
  Metrics :: "Metric list"

datatype Type = Gauge | Counter

type_synonym generateFunc = "interface \<Rightarrow> globals \<Rightarrow> (panic + Family) \<times> globals"

record FamilyGenerator =
  Name :: string
  Help :: string
  Type :: Type
  DeprecatedVersion :: string
  GenerateFunc :: generateFunc

definition NewFamilyGenerator ::
  "string \<Rightarrow> string \<Rightarrow> Type \<Rightarrow> string \<Rightarrow> generateFunc \<Rightarrow> FamilyGenerator" where
  "NewFamilyGenerator name help type deprecatedVersion generateFunc =
     \<lparr>FamilyGenerator.Name = name, Help = help, Type = type,
      DeprecatedVersion = deprecatedVersion, GenerateFunc = generateFunc\<rparr>"

text \<open>
  Modelled from the spec: \<^verbatim>\<open>createLabelKeysValues\<close> and
  \<^verbatim>\<open>createAnnotationKeysValues\<close>, the label composer, are defined in another file of
  the package. The keys are exactly the allow-list, in its order; the value at each
  position is the value of the map for the key at that position, or the empty string if
  the map has none. Keys of the map outside the allow-list are dropped.
\<close>

definition createLabelKeysValues ::
  "(string \<rightharpoonup> string) \<Rightarrow> string list \<Rightarrow> string list \<times> string list" where
  "createLabelKeysValues allKubeLabels allowList =
     (allowList, map (\<lambda>k. case allKubeLabels k of None \<Rightarrow> '''' | Some v \<Rightarrow> v) allowList)"

definition createAnnotationKeysValues ::
  "(string \<rightharpoonup> string) \<Rightarrow> string list \<Rightarrow> string list \<times> string list" where
  "createAnnotationKeysValues allKubeAnnotations allowList =
     (allowList, map (\<lambda>k. case allKubeAnnotations k of None \<Rightarrow> '''' | Some v \<Rightarrow> v) allowList)"

subsection \<open>The wrapper\<close>

text \<open>
  The loop of \<^verbatim>\<open>wrapStatefulSetFunc\<close> over the metrics of the family. Each metric gets
  the result of \<^verbatim>\<open>append(descStatefulSetLabelsDefaultLabels, m.LabelKeys...)\<close> as label
  keys, kept as the slice that \<^verbatim>\<open>append\<close> returned since a later iteration may write
  to the array behind it, and a new slice of label values: the literal of the namespace and
  the name has no spare capacity and is used once.
\<close>

fun prepend :: "StatefulSet \<Rightarrow> Metric list \<Rightarrow> slice \<Rightarrow> (strings \<times> Metric) list \<times> slice" where
  "prepend statefulSet [] d = ([], d)"
| "prepend statefulSet (m # ms) d =
     (let (keys, d') = append_desc d (LabelKeys m);
          m' = m\<lparr>LabelValues := [Namespace statefulSet, ObjectMeta.Name statefulSet] @ LabelValues m\<rparr>;
          (rest, d'') = prepend statefulSet ms d'
      in ((keys, m') # rest, d''))"

text \<open>
  The wrapped extractor: the type assertion, the call of \<open>f\<close>, the loop, and the family
  as the caller reads it on return. The extractors of this file build their family anew
  on every call, so \<open>f\<close> is a function of the object alone.
\<close>

definition wrapStatefulSetFunc :: "(StatefulSet \<Rightarrow> Family) \<Rightarrow> generateFunc" where
  "wrapStatefulSetFunc f obj g =
     (case obj of
        OtherValue t \<Rightarrow> (Inl (InterfaceConversion t), g)
      | StatefulSetPtr statefulSet \<Rightarrow>
          (let metricFamily = f statefulSet;
               (ms, d) = prepend statefulSet (Metrics metricFamily)
                           (descStatefulSetLabelsDefaultLabels g)
           in (Inr (metricFamily\<lparr>Metrics := map (\<lambda>(keys, m). m\<lparr>LabelKeys := contents d keys\<rparr>) ms\<rparr>),
               g\<lparr>descStatefulSetLabelsDefaultLabels := d\<rparr>)))"

subsection \<open>The catalog\<close>

definition statefulSetMetricFamilies :: "string list \<Rightarrow> string list \<Rightarrow> FamilyGenerator list" where
  "statefulSetMetricFamilies allowLabelsList allowAnnotationsList =
     (let families = [
        NewFamilyGenerator
          ''kube_statefulset_created''
          ''Unix creation timestamp''
          Gauge
          ''''
          (wrapStatefulSetFunc (\<lambda>s.
             let ms = [];
                 ms = (if \<not> IsZero (CreationTimestamp s)
                       then ms @ [\<lparr>LabelKeys = [], LabelValues = [],
                                   Value = float64_of (sint (Unix (CreationTimestamp s)))\<rparr>]
                       else ms)
             in \<lparr>Metrics = ms\<rparr>)),
        NewFamilyGenerator
          ''kube_statefulset_status_replicas''
          ''The number of replicas per StatefulSet.''
          Gauge
          ''''
          (wrapStatefulSetFunc (\<lambda>s.
             \<lparr>Metrics = [\<lparr>LabelKeys = [], LabelValues = [],
                          Value = float64_of (sint (StatefulSetStatus.Replicas (Status s)))\<rparr>]\<rparr>)),
        NewFamilyGenerator
          ''kube_statefulset_status_replicas_current''
          ''The number of current replicas per StatefulSet.''
          Gauge
          ''''
          (wrapStatefulSetFunc (\<lambda>s.
             \<lparr>Metrics = [\<lparr>LabelKeys = [], LabelValues = [],
                          Value = float64_of (sint (CurrentReplicas (Status s)))\<rparr>]\<rparr>)),
        NewFamilyGenerator
          ''kube_statefulset_status_replicas_ready''
          ''The number of ready replicas per StatefulSet.''
          Gauge
          ''''
          (wrapStatefulSetFunc (\<lambda>s.
             \<lparr>Metrics = [\<lparr>LabelKeys = [], LabelValues = [],
                          Value = float64_of (sint (ReadyReplicas (Status s)))\<rparr>]\<rparr>)),
        NewFamilyGenerator
          ''kube_statefulset_status_replicas_updated''
          ''The number of updated replicas per StatefulSet.''
          Gauge
          ''''
          (wrapStatefulSetFunc (\<lambda>s.
             \<lparr>Metrics = [\<lparr>LabelKeys = [], LabelValues = [],
                          Value = float64_of (sint (UpdatedReplicas (Status s)))\<rparr>]\<rparr>)),
        NewFamilyGenerator
          ''kube_statefulset_status_observed_generation''
          ''The generation observed by the StatefulSet controller.''
          Gauge
          ''''
          (wrapStatefulSetFunc (\<lambda>s.
             \<lparr>Metrics = [\<lparr>LabelKeys = [], LabelValues = [],
                          Value = float64_of (sint (ObservedGeneration (Status s)))\<rparr>]\<rparr>)),
        NewFamilyGenerator
          ''kube_statefulset_replicas''
          ''Number of desired pods for a StatefulSet.''
          Gauge
          ''''
          (wrapStatefulSetFunc (\<lambda>s.
             let ms = [];
                 ms = (case StatefulSetSpec.Replicas (Spec s) of
                         Some replicas \<Rightarrow>
                           ms @ [\<lparr>LabelKeys = [], LabelValues = [],
                                  Value = float64_of (sint replicas)\<rparr>]
                       | None \<Rightarrow> ms)
             in \<lparr>Metrics = ms\<rparr>)),
        NewFamilyGenerator
          ''kube_statefulset_metadata_generation''
          ''Sequence number representing a specific generation of the desired state for the StatefulSet.''
          Gauge
          ''''
          (wrapStatefulSetFunc (\<lambda>s.
             \<lparr>Metrics = [\<lparr>LabelKeys = [], LabelValues = [],
                          Value = float64_of (sint (Generation s))\<rparr>]\<rparr>)),
        NewFamilyGenerator
          ''kube_statefulset_status_current_revision''
          ''Indicates the version of the StatefulSet used to generate Pods in the sequence [0,currentReplicas).''
          Gauge
          ''''
          (wrapStatefulSetFunc (\<lambda>s.
             \<lparr>Metrics = [\<lparr>LabelKeys = [''revision''],
                          LabelValues = [CurrentRevision (Status s)],
                          Value = 1\<rparr>]\<rparr>)),
        NewFamilyGenerator
          ''kube_statefulset_status_update_revision''
          ''Indicates the version of the StatefulSet used to generate Pods in the sequence [replicas-updatedReplicas,replicas)''
          Gauge
          ''''
          (wrapStatefulSetFunc (\<lambda>s.
             \<lparr>Metrics = [\<lparr>LabelKeys = [''revision''],
                          LabelValues = [UpdateRevision (Status s)],
                          Value = 1\<rparr>]\<rparr>))
        ];
        families =
          (if length allowLabelsList > 0
           then families @ [NewFamilyGenerator
             descStatefulSetLabelsName
             descStatefulSetLabelsHelp
             Gauge
             ''''
             (wrapStatefulSetFunc (\<lambda>s.
                let (labelKeys, labelValues) = createLabelKeysValues (Labels s) allowLabelsList
                in \<lparr>Metrics = [\<lparr>LabelKeys = labelKeys,
                                LabelValues = labelValues,
                                Value = 1\<rparr>]\<rparr>))]
           else families);
        families =
          (if length allowAnnotationsList > 0
           then families @ [NewFamilyGenerator
             ''kube_statefulset_annotations''
             ''Kubernetes annotations converted to Prometheus labels.''
             Gauge
             ''''
             (wrapStatefulSetFunc (\<lambda>s.
                let (annotationKeys, annotationValues) =
                      createAnnotationKeysValues (Annotations s) allowAnnotationsList
                in \<lparr>Metrics = [\<lparr>LabelKeys = annotationKeys,
                                LabelValues = annotationValues,
                                Value = 1\<rparr>]\<rparr>))]
           else families)
      in families)"

text \<open>
  The family of a given name in a catalog, run on an object: \<open>None\<close> when the catalog has
  no family of that name.
\<close>

definition generate ::
  "FamilyGenerator list \<Rightarrow> string \<Rightarrow> interface \<Rightarrow> globals \<Rightarrow> ((panic + Family) \<times> globals) option" where
  "generate families name obj g =
     map_option (\<lambda>gen. GenerateFunc gen obj g)
       (find (\<lambda>gen. FamilyGenerator.Name gen = name) families)"

subsection \<open>The restricted map\<close>


subsection \<open>A sample object\<close>

text \<open>
  The StatefulSet \<^verbatim>\<open>web\<close> of the namespace \<^verbatim>\<open>ns1\<close>: no creation timestamp, no desired
  replica count, three ready replicas, three labels and one annotation.
\<close>

definition web :: StatefulSet where
  "web =
     \<lparr>ObjectMeta.Name = ''web'', Namespace = ''ns1'', Generation = 0,
      CreationTimestamp = \<lparr>sec = 0, nsec = 0\<rparr>,
      Labels = [''a'' \<mapsto> ''1'', ''b'' \<mapsto> ''2'', ''c'' \<mapsto> ''3''],
      Annotations = [''owner'' \<mapsto> ''team''],
      Spec = \<lparr>StatefulSetSpec.Replicas = None\<rparr>,
      Status = \<lparr>ObservedGeneration = 0, Replicas = 0, ReadyReplicas = 3,
                CurrentReplicas = 0, UpdatedReplicas = 0,
                CurrentRevision = ''web-1'', UpdateRevision = ''web-2''\<rparr>\<rparr>"

section \<open>Properties\<close>

subsection \<open>Conversion to float64\<close>

lemma float64_of_exact:
  assumes "\<bar>i\<bar> < 2 ^ 53"
  shows "float64_of i = of_int i"
proof -
  have "bitlen \<bar>i\<bar> \<le> 53"
    using assms by (simp add: bitlen_le_iff_power)
  then have "nat (bitlen \<bar>i\<bar> - 53) = 0"
    by simp
  then have "float64_of i = of_int (sgn i * \<bar>i\<bar>)"
    by (simp add: float64_of_def Let_def)
  then show ?thesis
    by (simp only: sgn_mult_abs)
qed

lemma float64_of_int32: "float64_of (sint (w :: int32)) = of_int (sint w)"
proof -
  have "- (2 ^ 31) \<le> sint w" "sint w < 2 ^ 31"
    using sint_ge [of w] sint_lt [of w] by simp_all
  then have "\<bar>sint w\<bar> < 2 ^ 53"
    by simp
  then show ?thesis
    by (rule float64_of_exact)
qed

lemma float64_of_0: "float64_of 0 = 0"
  by (simp add: float64_of_exact)

text \<open>Beyond 53 bits the conversion rounds, to the even neighbour on a tie.\<close>

lemma float64_of_rounds:
  "float64_of (2 ^ 53 + 1) = 2 ^ 53" "float64_of (2 ^ 53 + 3) = 2 ^ 53 + 4"
  by code_simp+

subsection \<open>The package variable is never written\<close>

lemma append_desc_init:
  "append_desc \<lparr>backing = [a, b], count = 2\<rparr> xs =
     ((if xs = [] then Alias 2 else Own ([a, b] @ xs)), \<lparr>backing = [a, b], count = 2\<rparr>)"
  by (simp add: append_desc_def elems_def)

text \<open>With spare capacity the call would write to the array of the package variable.\<close>

lemma append_desc_spare:
  "append_desc \<lparr>backing = [a, b, c], count = 2\<rparr> [x] =
     (Alias 3, \<lparr>backing = [a, b, x], count = 2\<rparr>)"
  by (simp add: append_desc_def)

lemma prepend_init:
  "prepend s ms \<lparr>backing = [a, b], count = 2\<rparr> =
     (map (\<lambda>m. ((if LabelKeys m = [] then Alias 2 else Own ([a, b] @ LabelKeys m)),
                 m\<lparr>LabelValues := [Namespace s, ObjectMeta.Name s] @ LabelValues m\<rparr>)) ms,
      \<lparr>backing = [a, b], count = 2\<rparr>)"
  by (induction ms) (simp_all add: append_desc_init)

lemma wrapStatefulSetFunc_init:
  "wrapStatefulSetFunc f (StatefulSetPtr s) init_globals =
     (Inr ((f s)\<lparr>Metrics :=
             map (\<lambda>m. m\<lparr>LabelKeys := [''namespace'', ''statefulset''] @ LabelKeys m,
                        LabelValues := [Namespace s, ObjectMeta.Name s] @ LabelValues m\<rparr>)
               (Metrics (f s))\<rparr>),
      init_globals)"
  by (simp add: wrapStatefulSetFunc_def init_globals_def prepend_init Let_def comp_def)

subsection \<open>The catalog\<close>

lemmas catalog_defs =
  statefulSetMetricFamilies_def NewFamilyGenerator_def descStatefulSetLabelsName_def
  descStatefulSetLabelsHelp_def Let_def

text \<open>No family of the catalog is built without the wrapper.\<close>

lemma catalog_wrapped:
  assumes "gen \<in> set (statefulSetMetricFamilies allowLabelsList allowAnnotationsList)"
  shows "\<exists>f. GenerateFunc gen = wrapStatefulSetFunc f"
  using assms by (auto simp add: catalog_defs split: if_splits)

text \<open>Whatever the argument, a family of the catalog leaves the package variable as it was.\<close>

lemma catalog_preserves_init:
  assumes "gen \<in> set (statefulSetMetricFamilies allowLabelsList allowAnnotationsList)"
  shows "snd (GenerateFunc gen obj init_globals) = init_globals"
proof -
  obtain f where f: "GenerateFunc gen = wrapStatefulSetFunc f"
    using assms catalog_wrapped by blast
  show ?thesis
  proof (cases obj)
    case (StatefulSetPtr s)
    then show ?thesis
      by (simp add: f wrapStatefulSetFunc_init)
  next
    case (OtherValue t)
    then show ?thesis
      by (simp add: f wrapStatefulSetFunc_def)
  qed
qed

text \<open>The names of the families, in the order of the catalog.\<close>

lemma catalog_names:
  "map FamilyGenerator.Name (statefulSetMetricFamilies allowLabelsList allowAnnotationsList) =
     [''kube_statefulset_created'',
      ''kube_statefulset_status_replicas'',
      ''kube_statefulset_status_replicas_current'',
      ''kube_statefulset_status_replicas_ready'',
      ''kube_statefulset_status_replicas_updated'',
      ''kube_statefulset_status_observed_generation'',
      ''kube_statefulset_replicas'',
      ''kube_statefulset_metadata_generation'',
      ''kube_statefulset_status_current_revision'',
      ''kube_statefulset_status_update_revision'']
     @ (if allowLabelsList = [] then [] else [''kube_statefulset_labels''])
     @ (if allowAnnotationsList = [] then [] else [''kube_statefulset_annotations''])"
  by (simp add: catalog_defs)



section \<open>The claims\<close>

text \<open>
  In what follows a family is run in the state \<open>init_globals\<close> of the package
  variable. That state is the only one a run can reach: every call returns it unchanged.
\<close>

text \<open>
  C1, as the code has it. For every family of the catalog and every StatefulSet, the
  wrapped extractor returns a family and leaves the package variable as it was, and in
  every record of that family the first two label keys are \<^verbatim>\<open>namespace\<close> and
  \<^verbatim>\<open>statefulset\<close> and the first two label values are the namespace and the name of
  the object, in that order. The second key is \<^verbatim>\<open>statefulset\<close>, not \<^verbatim>\<open>name\<close>.
\<close>

theorem identity_labels_first:
  "\<forall>gen \<in> set (statefulSetMetricFamilies allowLabelsList allowAnnotationsList).
     \<exists>fam. GenerateFunc gen (StatefulSetPtr s) init_globals = (Inr fam, init_globals) \<and>
       (\<forall>m \<in> set (Metrics fam).
          take 2 (LabelKeys m) = [''namespace'', ''statefulset''] \<and>
          take 2 (LabelValues m) = [Namespace s, ObjectMeta.Name s])"
proof
  fix gen
  assume "gen \<in> set (statefulSetMetricFamilies allowLabelsList allowAnnotationsList)"
  then obtain f where "GenerateFunc gen = wrapStatefulSetFunc f"
    using catalog_wrapped by blast
  then show "\<exists>fam. GenerateFunc gen (StatefulSetPtr s) init_globals = (Inr fam, init_globals) \<and>
       (\<forall>m \<in> set (Metrics fam).
          take 2 (LabelKeys m) = [''namespace'', ''statefulset''] \<and>
          take 2 (LabelValues m) = [Namespace s, ObjectMeta.Name s])"
    by (simp add: wrapStatefulSetFunc_init)
qed

text \<open>The labels family of a catalog with the allow-list \<^verbatim>\<open>[a, c]\<close>, run on the sample.\<close>

theorem identity_labels_first_witness:
  "last (statefulSetMetricFamilies [''a'', ''c''] [])
     \<in> set (statefulSetMetricFamilies [''a'', ''c''] []) \<and>
   GenerateFunc (last (statefulSetMetricFamilies [''a'', ''c''] []))
       (StatefulSetPtr web) init_globals =
     (Inr \<lparr>Metrics = [\<lparr>LabelKeys = [''namespace'', ''statefulset'', ''a'', ''c''],
                        LabelValues = [''ns1'', ''web'', ''1'', ''3''],
                        Value = 1\<rparr>]\<rparr>,
      init_globals) \<and>
   take 2 [''namespace'', ''statefulset'', ''a'', ''c''] = [''namespace'', ''statefulset''] \<and>
   take 2 [''ns1'', ''web'', ''1'', ''3''] = [Namespace web, ObjectMeta.Name web]"
  using identity_labels_first [of "[''a'', ''c'']" "[]" web]
  by (simp add: catalog_defs wrapStatefulSetFunc_init createLabelKeysValues_def web_def)

text \<open>
  C1 as the spec words it fails: the record of the current-revision family for the sample
  starts with the keys \<^verbatim>\<open>namespace\<close> and \<^verbatim>\<open>statefulset\<close>.
\<close>

theorem identity_labels_first_counterexample:
  "generate (statefulSetMetricFamilies [] []) ''kube_statefulset_status_current_revision''
       (StatefulSetPtr web) init_globals =
     Some (Inr \<lparr>Metrics = [\<lparr>LabelKeys = [''namespace'', ''statefulset'', ''revision''],
                              LabelValues = [''ns1'', ''web'', ''web-1''],
                              Value = 1\<rparr>]\<rparr>,
           init_globals) \<and>
   take 2 [''namespace'', ''statefulset'', ''revision''] \<noteq> [''namespace'', ''name'']"
  by (simp add: generate_def catalog_defs wrapStatefulSetFunc_init web_def)

text \<open>
  C2, as the code has it. For every object that is called \<^verbatim>\<open>web\<close> in the namespace
  \<^verbatim>\<open>ns1\<close>, has no creation timestamp and no desired replica count, and has three
  ready replicas, and for the catalog built from two empty allow-lists: the
  creation-timestamp family returns no record, the desired-replicas family returns no
  record, and the ready-replicas family returns exactly one record, with the label pairs
  \<^verbatim>\<open>namespace=ns1\<close>, \<^verbatim>\<open>statefulset=web\<close> and the value 3.
\<close>

theorem scenario_web:
  "generate (statefulSetMetricFamilies [] []) ''kube_statefulset_created''
       (StatefulSetPtr (s\<lparr>Namespace := ''ns1'', ObjectMeta.Name := ''web'',
                          CreationTimestamp := \<lparr>sec = 0, nsec = 0\<rparr>,
                          Spec := \<lparr>StatefulSetSpec.Replicas = None\<rparr>,
                          Status := (Status s)\<lparr>ReadyReplicas := 3\<rparr>\<rparr>)) init_globals =
     Some (Inr \<lparr>Metrics = []\<rparr>, init_globals) \<and>
   generate (statefulSetMetricFamilies [] []) ''kube_statefulset_replicas''
       (StatefulSetPtr (s\<lparr>Namespace := ''ns1'', ObjectMeta.Name := ''web'',
                          CreationTimestamp := \<lparr>sec = 0, nsec = 0\<rparr>,
                          Spec := \<lparr>StatefulSetSpec.Replicas = None\<rparr>,
                          Status := (Status s)\<lparr>ReadyReplicas := 3\<rparr>\<rparr>)) init_globals =
     Some (Inr \<lparr>Metrics = []\<rparr>, init_globals) \<and>
   generate (statefulSetMetricFamilies [] []) ''kube_statefulset_status_replicas_ready''
       (StatefulSetPtr (s\<lparr>Namespace := ''ns1'', ObjectMeta.Name := ''web'',
                          CreationTimestamp := \<lparr>sec = 0, nsec = 0\<rparr>,
                          Spec := \<lparr>StatefulSetSpec.Replicas = None\<rparr>,
                          Status := (Status s)\<lparr>ReadyReplicas := 3\<rparr>\<rparr>)) init_globals =
     Some (Inr \<lparr>Metrics = [\<lparr>LabelKeys = [''namespace'', ''statefulset''],
                              LabelValues = [''ns1'', ''web''],
                              Value = 3\<rparr>]\<rparr>, init_globals)"
  by (simp add: generate_def catalog_defs wrapStatefulSetFunc_init IsZero_def float64_of_int32)

text \<open>
  C2 as the spec words it fails on the sample: the second label pair of the ready-replicas
  record is \<^verbatim>\<open>statefulset=web\<close>, not \<^verbatim>\<open>name=web\<close>.
\<close>

theorem scenario_web_counterexample:
  "generate (statefulSetMetricFamilies [] []) ''kube_statefulset_status_replicas_ready''
       (StatefulSetPtr web) init_globals =
     Some (Inr \<lparr>Metrics = [\<lparr>LabelKeys = [''namespace'', ''statefulset''],
                              LabelValues = [''ns1'', ''web''],
                              Value = 3\<rparr>]\<rparr>, init_globals) \<and>
   zip [''namespace'', ''statefulset''] [''ns1'', ''web'']
     \<noteq> [(''namespace'', ''ns1''), (''name'', ''web'')]"
  by (simp add: generate_def catalog_defs wrapStatefulSetFunc_init web_def float64_of_int32)

text \<open>
  C3. For every StatefulSet and every catalog, the family \<^verbatim>\<open>kube_statefulset_replicas\<close>
  returns no record when \<^verbatim>\<open>Spec.Replicas\<close> is nil, and otherwise exactly one record,
  whose value is the number \<^verbatim>\<open>*Spec.Replicas\<close> itself: the conversion of a 32-bit
  integer to float64 is exact. No record stands for the absent count.
\<close>

theorem replicas_family:
  "generate (statefulSetMetricFamilies allowLabelsList allowAnnotationsList)
       ''kube_statefulset_replicas'' (StatefulSetPtr s) init_globals =
     Some (Inr \<lparr>Metrics =
                 (case StatefulSetSpec.Replicas (Spec s) of
                    None \<Rightarrow> []
                  | Some replicas \<Rightarrow>
                      [\<lparr>LabelKeys = [''namespace'', ''statefulset''],
                        LabelValues = [Namespace s, ObjectMeta.Name s],
                        Value = of_int (sint replicas)\<rparr>])\<rparr>,
           init_globals)"
  by (simp add: generate_def catalog_defs wrapStatefulSetFunc_init float64_of_int32
      split: option.split)

text \<open>
  C4. For every StatefulSet and every catalog, each of the six families of the status
  replicas, the current, ready and updated replicas, the observed generation and the
  metadata generation returns exactly one record, with the identity labels only, whose
  value is the field converted to float64: for the four 32-bit counts that is the count
  itself, for the two 64-bit generations the nearest float64. A field that is unset is 0
  in Go and gives the value 0.
\<close>

theorem counter_families:
  "(let families = statefulSetMetricFamilies allowLabelsList allowAnnotationsList;
        one = (\<lambda>v. Some (Inr \<lparr>Metrics = [\<lparr>LabelKeys = [''namespace'', ''statefulset''],
                                             LabelValues = [Namespace s, ObjectMeta.Name s],
                                             Value = v\<rparr>]\<rparr>, init_globals))
    in generate families ''kube_statefulset_status_replicas'' (StatefulSetPtr s) init_globals
         = one (of_int (sint (StatefulSetStatus.Replicas (Status s)))) \<and>
       generate families ''kube_statefulset_status_replicas_current'' (StatefulSetPtr s) init_globals
         = one (of_int (sint (CurrentReplicas (Status s)))) \<and>
       generate families ''kube_statefulset_status_replicas_ready'' (StatefulSetPtr s) init_globals
         = one (of_int (sint (ReadyReplicas (Status s)))) \<and>
       generate families ''kube_statefulset_status_replicas_updated'' (StatefulSetPtr s) init_globals
         = one (of_int (sint (UpdatedReplicas (Status s)))) \<and>
       generate families ''kube_statefulset_status_observed_generation'' (StatefulSetPtr s) init_globals
         = one (float64_of (sint (ObservedGeneration (Status s)))) \<and>
       generate families ''kube_statefulset_metadata_generation'' (StatefulSetPtr s) init_globals
         = one (float64_of (sint (Generation s)))) \<and>
   float64_of (sint (0 :: int64)) = 0 \<and> real_of_int (sint (0 :: int32)) = 0"
  by (simp add: generate_def catalog_defs wrapStatefulSetFunc_init float64_of_int32 float64_of_0)

text \<open>
  C5. For every StatefulSet and every catalog, the current-revision family and the
  update-revision family each return exactly one record, whose label keys are the identity
  keys and \<^verbatim>\<open>revision\<close>, whose label values are the identity values and the revision
  string of the status, and whose value is the constant 1.
\<close>

theorem revision_families:
  "generate (statefulSetMetricFamilies allowLabelsList allowAnnotationsList)
       ''kube_statefulset_status_current_revision'' (StatefulSetPtr s) init_globals =
     Some (Inr \<lparr>Metrics = [\<lparr>LabelKeys = [''namespace'', ''statefulset'', ''revision''],
                              LabelValues = [Namespace s, ObjectMeta.Name s, CurrentRevision (Status s)],
                              Value = 1\<rparr>]\<rparr>, init_globals) \<and>
   generate (statefulSetMetricFamilies allowLabelsList allowAnnotationsList)
       ''kube_statefulset_status_update_revision'' (StatefulSetPtr s) init_globals =
     Some (Inr \<lparr>Metrics = [\<lparr>LabelKeys = [''namespace'', ''statefulset'', ''revision''],
                              LabelValues = [Namespace s, ObjectMeta.Name s, UpdateRevision (Status s)],
                              Value = 1\<rparr>]\<rparr>, init_globals)"
  by (simp add: generate_def catalog_defs wrapStatefulSetFunc_init)




text \<open>
  C7. For every StatefulSet, every family of the catalog and every record the wrapped
  extractor returns, the record has as many label keys as label values.
\<close>

theorem keys_values_same_length:
  "\<forall>gen \<in> set (statefulSetMetricFamilies allowLabelsList allowAnnotationsList).
     \<exists>fam. GenerateFunc gen (StatefulSetPtr s) init_globals = (Inr fam, init_globals) \<and>
       (\<forall>m \<in> set (Metrics fam). length (LabelKeys m) = length (LabelValues m))"
  by (auto simp add: catalog_defs wrapStatefulSetFunc_init createLabelKeysValues_def
      createAnnotationKeysValues_def split: option.split)

text \<open>The annotations family of a catalog with the allow-list \<^verbatim>\<open>[owner]\<close>, on the sample.\<close>

theorem keys_values_same_length_witness:
  "statefulSetMetricFamilies [] [''owner''] ! 10 \<in> set (statefulSetMetricFamilies [] [''owner'']) \<and>
   GenerateFunc (statefulSetMetricFamilies [] [''owner''] ! 10) (StatefulSetPtr web) init_globals =
     (Inr \<lparr>Metrics = [\<lparr>LabelKeys = [''namespace'', ''statefulset'', ''owner''],
                        LabelValues = [''ns1'', ''web'', ''team''],
                        Value = 1\<rparr>]\<rparr>,
      init_globals) \<and>
   length [''namespace'', ''statefulset'', ''owner''] = length [''ns1'', ''web'', ''team'']"
  using keys_values_same_length [of "[]" "[''owner'']" web]
  by (simp add: catalog_defs wrapStatefulSetFunc_init createAnnotationKeysValues_def web_def)

text \<open>
  C8, as the code has it. Building the catalog does not fail and rejects nothing: the
  builder has no error result and looks at an allow-list only to see whether it is empty.
  For every pair of allow-lists, with duplicate keys and keys that are identity label
  names too, it returns the ten fixed families, then the labels family if the label
  allow-list is not empty, then the annotations family if the annotation allow-list is not
  empty.
\<close>

theorem builder_validates_nothing:
  "map FamilyGenerator.Name (statefulSetMetricFamilies allowLabelsList allowAnnotationsList) =
     [''kube_statefulset_created'',
      ''kube_statefulset_status_replicas'',
      ''kube_statefulset_status_replicas_current'',
      ''kube_statefulset_status_replicas_ready'',
      ''kube_statefulset_status_replicas_updated'',
      ''kube_statefulset_status_observed_generation'',
      ''kube_statefulset_replicas'',
      ''kube_statefulset_metadata_generation'',
      ''kube_statefulset_status_current_revision'',
      ''kube_statefulset_status_update_revision'']
     @ (if allowLabelsList = [] then [] else [''kube_statefulset_labels''])
     @ (if allowAnnotationsList = [] then [] else [''kube_statefulset_annotations''])"
  by (rule catalog_names)

text \<open>
  C8 as the spec words it fails: a label allow-list with a duplicate key and an annotation
  allow-list with the identity label name \<^verbatim>\<open>namespace\<close> give a catalog of twelve
  families.
\<close>

theorem builder_rejects_counterexample:
  "\<not> distinct [''a'', ''a''] \<and>
   ''namespace'' \<in> set (elems (descStatefulSetLabelsDefaultLabels init_globals)) \<and>
   map FamilyGenerator.Name (statefulSetMetricFamilies [''a'', ''a''] [''namespace'']) =
     [''kube_statefulset_created'',
      ''kube_statefulset_status_replicas'',
      ''kube_statefulset_status_replicas_current'',
      ''kube_statefulset_status_replicas_ready'',
      ''kube_statefulset_status_replicas_updated'',
      ''kube_statefulset_status_observed_generation'',
      ''kube_statefulset_replicas'',
      ''kube_statefulset_metadata_generation'',
      ''kube_statefulset_status_current_revision'',
      ''kube_statefulset_status_update_revision'',
      ''kube_statefulset_labels'',
      ''kube_statefulset_annotations'']"
  by (simp add: catalog_names elems_def init_globals_def)

text \<open>
  C9. For every family of the catalog and every StatefulSet, a first call in the initial
  state returns a family and a state, and a second call on the same object in the state
  the first one left returns the same family, with the same records, label keys, label
  values and numbers, and the same state again.
\<close>

theorem generate_twice:
  "\<forall>gen \<in> set (statefulSetMetricFamilies allowLabelsList allowAnnotationsList).
     \<exists>fam g. GenerateFunc gen (StatefulSetPtr s) init_globals = (Inr fam, g) \<and>
             GenerateFunc gen (StatefulSetPtr s) g = (Inr fam, g)"
proof
  fix gen
  assume "gen \<in> set (statefulSetMetricFamilies allowLabelsList allowAnnotationsList)"
  then obtain f where "GenerateFunc gen = wrapStatefulSetFunc f"
    using catalog_wrapped by blast
  then show "\<exists>fam g. GenerateFunc gen (StatefulSetPtr s) init_globals = (Inr fam, g) \<and>
             GenerateFunc gen (StatefulSetPtr s) g = (Inr fam, g)"
    by (simp add: wrapStatefulSetFunc_init)
qed

text \<open>The first family of the catalog, the creation timestamp, on a sample created at the epoch.\<close>

theorem generate_twice_witness:
  "hd (statefulSetMetricFamilies [] []) \<in> set (statefulSetMetricFamilies [] []) \<and>
   GenerateFunc (hd (statefulSetMetricFamilies [] []))
       (StatefulSetPtr (web\<lparr>CreationTimestamp := \<lparr>sec = 62135596800, nsec = 0\<rparr>\<rparr>))
       init_globals =
     (Inr \<lparr>Metrics = [\<lparr>LabelKeys = [''namespace'', ''statefulset''],
                        LabelValues = [''ns1'', ''web''],
                        Value = 0\<rparr>]\<rparr>,
      init_globals)"
  using generate_twice [of "[]" "[]" "web\<lparr>CreationTimestamp := \<lparr>sec = 62135596800, nsec = 0\<rparr>\<rparr>"]
  by (simp add: catalog_defs wrapStatefulSetFunc_init web_def IsZero_def Unix_def float64_of_0)

text \<open>
  C10. Whatever the extractor and the state, the wrapped extractor panics on an argument
  whose dynamic type is not a pointer to a StatefulSet: the type assertion has no second
  result to test, so the call yields neither a family nor an error value. On a StatefulSet
  it returns a family.
\<close>

theorem wrapped_total_on_statefulsets_only:
  "wrapStatefulSetFunc f (OtherValue t) g = (Inl (InterfaceConversion t), g) \<and>
   (\<exists>fam g'. wrapStatefulSetFunc f (StatefulSetPtr s) g = (Inr fam, g'))"
  by (simp add: wrapStatefulSetFunc_def Let_def split: prod.split)

end
